theory Spec2Isabelle
  imports Main
begin

section \<open>The file-import controller of \<open>src/controller/controller.ts\<close>\<close>

text \<open>
  A shallow embedding of the class \<open>FilePluginController\<close>. The filetype check
  \<open>isFileValid\<close> is a pure function of the configuration and the file name. The event
  handlers mutate the bound value, the DOM nodes of the view and the timer queue of the
  page; here they are functions from a state record to an outcome, which is either a
  normal return or a DOM exception together with the state reached when it was raised.
\<close>

subsection \<open>Strings\<close>

text \<open>
  A JavaScript string is modelled as a \<open>string\<close> whose characters are the code units
  below 256, that is, Latin-1. On these \<open>toLowerCase\<close> is
  \<open>String.prototype.toLowerCase\<close>: it maps the letters \<open>A\<close> to \<open>Z\<close> and the capital
  letters from \<open>0xC0\<close> to \<open>0xDE\<close>, without the multiplication sign \<open>0xD7\<close>, to the
  code unit 32 above, and leaves every other code unit as it is. \<open>split_str sep s\<close> is \<open>s.split(sep)\<close> for a one-character separator: the list of
  the segments between the separators, which is never empty. \<open>pop\<close> is the value
  returned by \<open>Array.prototype.pop\<close>, with \<open>None\<close> for \<open>undefined\<close>.
\<close>

definition toLowerCase_char :: "char \<Rightarrow> char" where
  "toLowerCase_char c =
     (case map_of
        (zip (''ABCDEFGHIJKLMNOPQRSTUVWXYZ'' @
              [CHR 0xC0, CHR 0xC1, CHR 0xC2, CHR 0xC3, CHR 0xC4, CHR 0xC5, CHR 0xC6, CHR 0xC7,
               CHR 0xC8, CHR 0xC9, CHR 0xCA, CHR 0xCB, CHR 0xCC, CHR 0xCD, CHR 0xCE, CHR 0xCF,
               CHR 0xD0, CHR 0xD1, CHR 0xD2, CHR 0xD3, CHR 0xD4, CHR 0xD5, CHR 0xD6, CHR 0xD8,
               CHR 0xD9, CHR 0xDA, CHR 0xDB, CHR 0xDC, CHR 0xDD, CHR 0xDE])
             (''abcdefghijklmnopqrstuvwxyz'' @
              [CHR 0xE0, CHR 0xE1, CHR 0xE2, CHR 0xE3, CHR 0xE4, CHR 0xE5, CHR 0xE6, CHR 0xE7,
               CHR 0xE8, CHR 0xE9, CHR 0xEA, CHR 0xEB, CHR 0xEC, CHR 0xED, CHR 0xEE, CHR 0xEF,
               CHR 0xF0, CHR 0xF1, CHR 0xF2, CHR 0xF3, CHR 0xF4, CHR 0xF5, CHR 0xF6, CHR 0xF8,
               CHR 0xF9, CHR 0xFA, CHR 0xFB, CHR 0xFC, CHR 0xFD, CHR 0xFE]))
        c of
        Some l \<Rightarrow> l
      | None \<Rightarrow> c)"

definition toLowerCase :: "string \<Rightarrow> string" where
  "toLowerCase s = map toLowerCase_char s"

fun split_str :: "char \<Rightarrow> string \<Rightarrow> string list" where
  "split_str sep [] = [[]]"
| "split_str sep (c # cs) =
     (if c = sep then [] # split_str sep cs
      else (case split_str sep cs of
              [] \<Rightarrow> [[c]]
            | w # ws \<Rightarrow> (c # w) # ws))"

definition pop :: "'a list \<Rightarrow> 'a option" where
  "pop xs = (if xs = [] then None else Some (last xs))"

subsection \<open>Files and configuration\<close>

text \<open>
  A \<open>File\<close> object has a name; \<open>objid\<close> stands for the identity of the object, which
  is what the host compares when a value is set. \<open>config\<close> is the interface \<open>Config\<close>
  without the two host objects \<open>value\<close> and \<open>viewProps\<close>, which live in the state
  below; an absent \<open>filetypes\<close> is \<open>None\<close>.
\<close>

datatype js_file = File (name: string) (objid: nat)

record config =
  lineCount :: nat
  filetypes :: "string list option"

subsection \<open>\<open>isFileValid\<close>\<close>

text \<open>
  \<open>fileExtension\<close> is the constant of that name in \<open>isFileValid\<close>:
  \<open>'.' + file.name.split('.').pop()?.toLowerCase()\<close>. Concatenating \<open>undefined\<close> gives
  the text \<open>undefined\<close>. In the returned conjunction an array is truthy when it is
  present and a string is truthy when it is not empty.
\<close>

definition fileExtension :: "js_file \<Rightarrow> string" where
  "fileExtension file =
     ''.'' @ (case map_option toLowerCase (pop (split_str (CHR ''.'') (name file))) of
               None \<Rightarrow> ''undefined''
             | Some e \<Rightarrow> e)"

definition isFileValid :: "config \<Rightarrow> js_file \<Rightarrow> bool" where
  "isFileValid cfg file =
     (\<not> (case filetypes cfg of
           None \<Rightarrow> False
         | Some ft \<Rightarrow> 0 < length ft \<and> fileExtension file \<notin> set ft
                      \<and> fileExtension file \<noteq> []))"

text \<open>
  The same check in the words of the specification, for comparison with the code: the
  extension of a name is extractable when the name contains a dot, and is then the text
  after the last dot, lowercased and prefixed with a dot; a file is rejected exactly when
  the allow-list is non-empty, an extension is extractable and it is not in the list.
\<close>

definition spec_extension :: "string \<Rightarrow> string option" where
  "spec_extension nm =
     (if CHR ''.'' \<in> set nm
      then Some (''.'' @ toLowerCase (rev (takeWhile (\<lambda>c. c \<noteq> CHR ''.'') (rev nm))))
      else None)"

definition spec_isFileValid :: "string list option \<Rightarrow> js_file \<Rightarrow> bool" where
  "spec_isFileValid L f =
     (\<not> (case L of
           None \<Rightarrow> False
         | Some ft \<Rightarrow> ft \<noteq> [] \<and>
             (case spec_extension (name f) of
                None \<Rightarrow> False
              | Some e \<Rightarrow> e \<notin> set ft)))"

subsection \<open>State\<close>

text \<open>
  Modelled from the spec: the view class \<open>FilePluginView\<close> of \<open>view/view.ts\<close>, which
  the controller imports and which is missing. Of the view the state keeps what the
  controller reads and writes: the file list and the raw value of the input element, the
  children of the
  container element (the text and the file icon are taken to be either direct children
  of the container or outside of it), its border style, the content of the text element,
  the content and the display style of the warning element, the display style of the
  delete button, and the dragging state toggled by \<open>changeDraggingState\<close>.

  Of the host the state keeps the bound value with the subscribers of its change
  notification, the table of registered DOM event listeners, the callbacks registered
  with \<open>handleDispose\<close>, the default-prevented flag of the event being dispatched, and
  the timer queue of the page with a clock in milliseconds.
\<close>

datatype node = InputEl | FileIconEl | TextEl

datatype target = ViewInput | ViewElement | ViewDeleteButton

datatype handler = OnFile | OnDrop | OnDragOver | OnDragLeave | OnDeleteClick

datatype disposer = RemoveListeners

datatype subscriber = HandleValueChange

datatype timer_callback = DismissWarning

datatype dom_exception = NotFoundError

record ctl_state =
  config :: config
  rawValue :: "js_file option"
  changeSubscribers :: "subscriber list"
  listeners :: "(target \<times> string \<times> handler) list"
  disposeHandlers :: "disposer list"
  inputFiles :: "js_file list option"
  inputValue :: string
  containerChildren :: "node list"
  containerBorder :: string
  textContent :: string
  warningInnerHTML :: string
  warningDisplay :: string
  deleteButtonDisplay :: string
  dragging :: bool
  defaultPrevented :: bool
  clock :: nat
  timers :: "(nat \<times> timer_callback) list"

text \<open>
  A handler either returns or is left by a DOM exception; in both cases the mutations
  made so far stay.
\<close>

datatype outcome = Returned ctl_state | Threw dom_exception ctl_state

fun state_of :: "outcome \<Rightarrow> ctl_state" where
  "state_of (Returned s) = s"
| "state_of (Threw e s) = s"

fun exception_of :: "outcome \<Rightarrow> dom_exception option" where
  "exception_of (Returned s) = None"
| "exception_of (Threw e s) = Some e"

fun and_then :: "outcome \<Rightarrow> (ctl_state \<Rightarrow> outcome) \<Rightarrow> outcome" where
  "and_then (Returned s) k = k s"
| "and_then (Threw e s) k = Threw e s"

subsection \<open>DOM and host operations\<close>

text \<open>
  \<open>appendChild\<close> moves a node that is already a child to the end. \<open>removeChild\<close>
  raises \<open>NotFoundError\<close> when the node is not a child. \<open>addEventListener\<close> ignores
  a listener that is already registered for the same target and type.
\<close>

definition appendChild :: "node \<Rightarrow> ctl_state \<Rightarrow> ctl_state" where
  "appendChild n s = s\<lparr>containerChildren := removeAll n (containerChildren s) @ [n]\<rparr>"

definition contains :: "node \<Rightarrow> ctl_state \<Rightarrow> bool" where
  "contains n s = (n \<in> set (containerChildren s))"

definition removeChild :: "node \<Rightarrow> ctl_state \<Rightarrow> outcome" where
  "removeChild n s =
     (if n \<in> set (containerChildren s)
      then Returned (s\<lparr>containerChildren := removeAll n (containerChildren s)\<rparr>)
      else Threw NotFoundError s)"

text \<open>
  Modelled from the spec: the view method \<open>changeDraggingState(active)\<close>, which the spec
  describes as the toggle of the dragging visual state.
\<close>

definition changeDraggingState :: "bool \<Rightarrow> ctl_state \<Rightarrow> ctl_state" where
  "changeDraggingState active s = s\<lparr>dragging := active\<rparr>"

definition addEventListener :: "target \<Rightarrow> string \<Rightarrow> handler \<Rightarrow> ctl_state \<Rightarrow> ctl_state" where
  "addEventListener t ty h s =
     (if (t, ty, h) \<in> set (listeners s) then s
      else s\<lparr>listeners := listeners s @ [(t, ty, h)]\<rparr>)"

definition removeEventListener :: "target \<Rightarrow> string \<Rightarrow> handler \<Rightarrow> ctl_state \<Rightarrow> ctl_state" where
  "removeEventListener t ty h s = s\<lparr>listeners := removeAll (t, ty, h) (listeners s)\<rparr>"

text \<open>
  \<open>setTimeout\<close> puts a callback into the timer queue, due after the delay. The only
  callback the controller ever schedules is the dismissal of the warning, which neither
  reads the clock nor schedules a timer. \<open>elapse dt\<close> lets \<open>dt\<close> milliseconds pass:
  every timer that is due by then runs, in the order of the queue, and leaves the queue;
  the others stay.
\<close>

definition setTimeout :: "timer_callback \<Rightarrow> nat \<Rightarrow> ctl_state \<Rightarrow> ctl_state" where
  "setTimeout cb delay s = s\<lparr>timers := timers s @ [(clock s + delay, cb)]\<rparr>"

fun run_timer :: "timer_callback \<Rightarrow> ctl_state \<Rightarrow> ctl_state" where
  "run_timer DismissWarning s = s\<lparr>warningInnerHTML := [], warningDisplay := ''none''\<rparr>"

definition elapse :: "nat \<Rightarrow> ctl_state \<Rightarrow> ctl_state" where
  "elapse dt s =
     (let t = clock s + dt;
          due = filter (\<lambda>p. fst p \<le> t) (timers s);
          pending = filter (\<lambda>p. \<not> fst p \<le> t) (timers s)
      in fold (\<lambda>p. run_timer (snd p)) due (s\<lparr>clock := t, timers := pending\<rparr>))"

subsection \<open>The handlers\<close>

definition handleValueChange :: "ctl_state \<Rightarrow> outcome" where
  "handleValueChange s =
     (case rawValue s of
        Some fileObj \<Rightarrow>
          (let s1 = s\<lparr>textContent := name fileObj\<rparr>;
               s2 = appendChild TextEl s1
           in and_then (if contains FileIconEl s2 then removeChild FileIconEl s2 else Returned s2)
                (\<lambda>s3. Returned (s3\<lparr>warningInnerHTML := [], warningDisplay := ''none'',
                                    deleteButtonDisplay := ''block'',
                                    containerBorder := ''unset''\<rparr>)))
      | None \<Rightarrow>
          (let s1 = s\<lparr>textContent := []\<rparr>;
               s2 = appendChild FileIconEl s1
           in and_then (removeChild TextEl s2)
                (\<lambda>s3. Returned (s3\<lparr>warningInnerHTML := [], warningDisplay := ''none'',
                                    deleteButtonDisplay := ''none'',
                                    containerBorder := ''1px dashed #717070''\<rparr>))))"

text \<open>
  Setting the bound value stores it and, when it differs from the old one, notifies the
  subscribers one after the other within the same call; an exception of a subscriber
  leaves through \<open>setRawValue\<close>.
\<close>

fun run_subscriber :: "subscriber \<Rightarrow> ctl_state \<Rightarrow> outcome" where
  "run_subscriber HandleValueChange s = handleValueChange s"

fun emit_change :: "subscriber list \<Rightarrow> ctl_state \<Rightarrow> outcome" where
  "emit_change [] s = Returned s"
| "emit_change (h # hs) s = and_then (run_subscriber h s) (emit_change hs)"

definition setRawValue :: "js_file option \<Rightarrow> ctl_state \<Rightarrow> outcome" where
  "setRawValue v s =
     (if rawValue s = v then Returned s
      else emit_change (changeSubscribers s) (s\<lparr>rawValue := v\<rparr>))"

definition showWarning :: "ctl_state \<Rightarrow> ctl_state" where
  "showWarning s =
     setTimeout DismissWarning 5000
       (s\<lparr>warningDisplay := ''block'', warningInnerHTML := ''Unaccepted file type.''\<rparr>)"

definition onFile :: "ctl_state \<Rightarrow> outcome" where
  "onFile s =
     (case inputFiles s of
        Some (file # rest) \<Rightarrow>
          (if \<not> isFileValid (config s) file then Returned (showWarning s)
           else setRawValue (Some file) s)
      | _ \<Rightarrow> Returned s)"

text \<open>
  Assigning the empty string to the value of a file input also empties its file list.
\<close>

definition onDeleteClick :: "ctl_state \<Rightarrow> outcome" where
  "onDeleteClick s =
     (case rawValue s of
        Some file \<Rightarrow>
          and_then (setRawValue None s)
            (\<lambda>s1. Returned (s1\<lparr>inputValue := [], inputFiles := map_option (\<lambda>fs. []) (inputFiles s1),
                                warningInnerHTML := [], warningDisplay := ''none''\<rparr>))
      | None \<Rightarrow> Returned s)"

definition onDragOver :: "ctl_state \<Rightarrow> ctl_state" where
  "onDragOver s = changeDraggingState True (s\<lparr>defaultPrevented := True\<rparr>)"

definition onDragLeave :: "ctl_state \<Rightarrow> ctl_state" where
  "onDragLeave s = changeDraggingState False s"

text \<open>
  A dispatched event: whether it is a \<open>DragEvent\<close>, and its \<open>dataTransfer\<close> with the
  \<open>files\<close> of that, each of which may be missing.
\<close>

record drop_event =
  isDragEvent :: bool
  dataTransfer :: "js_file list option option"

definition item :: "'a list \<Rightarrow> nat \<Rightarrow> 'a option" where
  "item xs i = (if i < length xs then Some (xs ! i) else None)"

definition onDrop :: "drop_event \<Rightarrow> ctl_state \<Rightarrow> outcome" where
  "onDrop ev s =
     and_then
       (if isDragEvent ev then
          (let s1 = s\<lparr>defaultPrevented := True\<rparr>
           in case dataTransfer ev of
                Some (Some filesArray) \<Rightarrow>
                  (if length filesArray = 1 then
                     (case item filesArray 0 of
                        Some file \<Rightarrow>
                          (if \<not> isFileValid (config s1) file then Returned (showWarning s1)
                           else setRawValue (Some file) s1)
                      | None \<Rightarrow> Returned s1)
                   else Returned s1)
              | _ \<Rightarrow> Returned s1)
        else Returned s)
       (\<lambda>s2. Returned (changeDraggingState False s2))"

subsection \<open>Construction and teardown\<close>

text \<open>
  \<open>run_disposer RemoveListeners\<close> is the callback that the constructor passes to
  \<open>handleDispose\<close>; \<open>dispose\<close> runs the registered callbacks. The constructor takes
  the state in which the view constructor has left the freshly built view.
\<close>

fun run_disposer :: "disposer \<Rightarrow> ctl_state \<Rightarrow> ctl_state" where
  "run_disposer RemoveListeners s =
     removeEventListener ViewElement ''dragleave'' OnDragLeave
       (removeEventListener ViewElement ''dragover'' OnDragOver
         (removeEventListener ViewElement ''drop'' OnDrop
           (removeEventListener ViewInput ''change'' OnFile s)))"

definition handleDispose :: "disposer \<Rightarrow> ctl_state \<Rightarrow> ctl_state" where
  "handleDispose d s = s\<lparr>disposeHandlers := disposeHandlers s @ [d]\<rparr>"

definition dispose :: "ctl_state \<Rightarrow> ctl_state" where
  "dispose s = fold run_disposer (disposeHandlers s) s"

definition emitter_on_change :: "subscriber \<Rightarrow> ctl_state \<Rightarrow> ctl_state" where
  "emitter_on_change h s = s\<lparr>changeSubscribers := changeSubscribers s @ [h]\<rparr>"

definition FilePluginController :: "config \<Rightarrow> ctl_state \<Rightarrow> ctl_state" where
  "FilePluginController cfg view0 =
     emitter_on_change HandleValueChange
       (handleDispose RemoveListeners
         (addEventListener ViewDeleteButton ''click'' OnDeleteClick
           (addEventListener ViewElement ''dragleave'' OnDragLeave
             (addEventListener ViewElement ''dragover'' OnDragOver
               (addEventListener ViewElement ''drop'' OnDrop
                 (addEventListener ViewInput ''change'' OnFile
                   (view0\<lparr>config := cfg\<rparr>)))))))"

text \<open>
  Modelled from the spec: the state of a freshly built view, which the absent view
  constructor determines. It follows the spec's description of the control without a
  file: the file icon is shown, the text element is not attached, the warning and the
  delete button are hidden and the border is dashed. The constructor of the controller
  does not run the change handler, and the view is taken to be in this state also when
  the value \<open>v\<close> it is built over already holds a file.
\<close>

definition fresh_view :: "js_file option \<Rightarrow> ctl_state" where
  "fresh_view v =
     \<lparr>config = \<lparr>lineCount = 1, filetypes = None\<rparr>,
      rawValue = v,
      changeSubscribers = [],
      listeners = [],
      disposeHandlers = [],
      inputFiles = Some [],
      inputValue = [],
      containerChildren = [InputEl, FileIconEl],
      containerBorder = ''1px dashed #717070'',
      textContent = [],
      warningInnerHTML = [],
      warningDisplay = ''none'',
      deleteButtonDisplay = ''none'',
      dragging = False,
      defaultPrevented = False,
      clock = 0,
      timers = []\<rparr>"

subsection \<open>Synchronised states\<close>

text \<open>
  A state of a constructed controller in which the text element is attached whenever a
  file is bound. The constructor establishes it over a fresh view without a file, and
  the handlers keep it.
\<close>

definition synchronised :: "ctl_state \<Rightarrow> bool" where
  "synchronised s =
     (changeSubscribers s = [HandleValueChange] \<and>
      (rawValue s = None \<or> TextEl \<in> set (containerChildren s)))"

subsection \<open>Events\<close>

text \<open>
  What a constructed control receives: the user selects files in the input (the
  browser sets the file list and the raw value of the input, and dispatches a change
  event), drops something, drags over or away, clicks the delete button, time passes,
  the bound value is set from outside, a change notification arrives, the view is
  disposed. A click is received by the delete button only while the button is
  displayed. The raw value of a file input is the name of its first file behind a fixed
  prefix, or empty.
\<close>

definition delete_button_shown :: "ctl_state \<Rightarrow> bool" where
  "delete_button_shown s = (deleteButtonDisplay s \<noteq> ''none'')"

definition fakepath :: "js_file list \<Rightarrow> string" where
  "fakepath fs =
     (case fs of
        [] \<Rightarrow> []
      | f # rest \<Rightarrow> ''C:'' @ [CHR 0x5C] @ ''fakepath'' @ [CHR 0x5C] @ name f)"

datatype event =
    SelectFiles "js_file list"
  | Drop drop_event
  | DragOver
  | DragLeave
  | ClickDelete
  | Elapse nat
  | SetValue "js_file option"
  | Notify
  | Dispose

fun deliver :: "event \<Rightarrow> ctl_state \<Rightarrow> ctl_state option" where
  "deliver (SelectFiles fs) s =
     Some (state_of (onFile (s\<lparr>inputFiles := Some fs, inputValue := fakepath fs\<rparr>)))"
| "deliver (Drop ev) s = Some (state_of (onDrop ev s))"
| "deliver DragOver s = Some (onDragOver s)"
| "deliver DragLeave s = Some (onDragLeave s)"
| "deliver ClickDelete s =
     (if delete_button_shown s then Some (state_of (onDeleteClick s)) else None)"
| "deliver (Elapse dt) s = Some (elapse dt s)"
| "deliver (SetValue v) s = Some (state_of (setRawValue v s))"
| "deliver Notify s = Some (state_of (handleValueChange s))"
| "deliver Dispose s = Some (dispose s)"

fun run :: "event list \<Rightarrow> ctl_state \<Rightarrow> ctl_state option" where
  "run [] s = Some s"
| "run (e # es) s = (case deliver e s of None \<Rightarrow> None | Some s' \<Rightarrow> run es s')"

text \<open>
  The invariant of a constructed control that the delete button is displayed only while
  the text element is attached.
\<close>

definition button_with_text :: "ctl_state \<Rightarrow> bool" where
  "button_with_text s =
     (changeSubscribers s = [HandleValueChange] \<and>
      (deleteButtonDisplay s = ''none'' \<or> TextEl \<in> set (containerChildren s)))"

subsection \<open>Example inputs\<close>

text \<open>
  The inputs of the scenarios of the specification: a control that accepts only
  \<open>.png\<close>, built over a value without a file, and two files. \<open>prebound_control\<close>
  is such a control built over a value that already holds \<open>photo.png\<close>, after the
  selection of \<open>photo.jpg\<close>, which is refused.
\<close>

definition png_only :: config where
  "png_only = \<lparr>lineCount = 1, filetypes = Some [''.png'']\<rparr>"

definition photo_jpg :: js_file where
  "photo_jpg = File ''photo.jpg'' 1"

definition photo_png :: js_file where
  "photo_png = File ''photo.png'' 2"

definition png_control :: ctl_state where
  "png_control = FilePluginController png_only (fresh_view None)"

definition prebound_control :: ctl_state where
  "prebound_control =
     state_of (onFile
       ((FilePluginController png_only (fresh_view (Some photo_png)))
          \<lparr>inputFiles := Some [photo_jpg], inputValue := fakepath [photo_jpg]\<rparr>))"

section \<open>The filetype check\<close>

lemma split_str_nonempty: "split_str sep s \<noteq> []"
  by (induction s) (auto split: list.splits)

lemma split_str_no_sep: "sep \<notin> set s \<Longrightarrow> split_str sep s = [s]"
  by (induction s) auto

lemma split_str_has_sep: "sep \<in> set s \<Longrightarrow> \<exists>w v vs. split_str sep s = w # v # vs"
proof (induction s)
  case Nil
  then show ?case by simp
next
  case (Cons c cs)
  show ?case
  proof (cases "c = sep")
    case True
    then show ?thesis using split_str_nonempty [of sep cs]
      by (cases "split_str sep cs") auto
  next
    case False
    with Cons.prems have "sep \<in> set cs" by simp
    from Cons.IH [OF this] obtain w v vs where "split_str sep cs = w # v # vs" by blast
    with False show ?thesis by simp
  qed
qed

text \<open>The last segment of a split is the text after the last separator.\<close>

lemma last_split_str: "last (split_str sep s) = rev (takeWhile (\<lambda>c. c \<noteq> sep) (rev s))"
proof (induction s)
  case Nil
  then show ?case by simp
next
  case (Cons c cs)
  show ?case
  proof (cases "c = sep")
    case True
    then show ?thesis using Cons split_str_nonempty [of sep cs]
      by (simp add: takeWhile_append)
  next
    case False
    show ?thesis
    proof (cases "sep \<in> set cs")
      case True
      from split_str_has_sep [OF this] obtain w v vs
        where "split_str sep cs = w # v # vs" by blast
      with False True Cons show ?thesis
        by (auto simp add: takeWhile_append)
    next
      case no: False
      with False have "sep \<notin> set (c # cs)" by simp
      from split_str_no_sep [OF this] no False show ?thesis
        by (simp add: takeWhile_append)
    qed
  qed
qed

text \<open>
  \<open>pop\<close> never returns \<open>undefined\<close> here, so the extension is always a dot followed by
  the lowercased last segment, and it is never the empty string: the last conjunct of
  \<open>isFileValid\<close> is always true.
\<close>

lemma fileExtension_last:
  "fileExtension f = ''.'' @ toLowerCase (last (split_str (CHR ''.'') (name f)))"
  by (simp add: fileExtension_def pop_def split_str_nonempty)

lemma fileExtension_truthy: "fileExtension f \<noteq> []"
  by (simp add: fileExtension_def)

lemma isFileValid_iff:
  "isFileValid cfg f =
     (\<not> (\<exists>ft. filetypes cfg = Some ft \<and> ft \<noteq> [] \<and> fileExtension f \<notin> set ft))"
  by (auto simp add: isFileValid_def fileExtension_truthy split: option.splits)

text \<open>On a name with a dot the code and the specification agree.\<close>

lemma fileExtension_dotted:
  "CHR ''.'' \<in> set (name f) \<Longrightarrow> spec_extension (name f) = Some (fileExtension f)"
  by (simp add: spec_extension_def fileExtension_last last_split_str)

lemma isFileValid_dotted:
  "CHR ''.'' \<in> set (name f) \<Longrightarrow> isFileValid cfg f = spec_isFileValid (filetypes cfg) f"
  by (simp add: isFileValid_def spec_isFileValid_def fileExtension_dotted fileExtension_truthy
      split: option.splits)

text \<open>
  On a name without a dot the whole name is the last segment, so the code looks for a dot
  followed by the lowercased name in the allow-list, where the specification accepts.
\<close>

lemma fileExtension_undotted:
  "CHR ''.'' \<notin> set (name f) \<Longrightarrow> fileExtension f = ''.'' @ toLowerCase (name f)"
  by (simp add: fileExtension_last split_str_no_sep)

lemma spec_isFileValid_undotted:
  "CHR ''.'' \<notin> set (name f) \<Longrightarrow> spec_isFileValid L f"
  by (simp add: spec_isFileValid_def spec_extension_def split: option.splits)

lemma isFileValid_undotted:
  "CHR ''.'' \<notin> set (name f) \<Longrightarrow>
   isFileValid cfg f =
     (\<not> (\<exists>ft. filetypes cfg = Some ft \<and> ft \<noteq> [] \<and> ''.'' @ toLowerCase (name f) \<notin> set ft))"
  by (simp add: isFileValid_iff fileExtension_undotted)

text \<open>The check on the file names used below.\<close>

lemma toLowerCase_examples:
  "toLowerCase ''jpg'' = ''jpg''"
  "toLowerCase ''png'' = ''png''"
  "toLowerCase ''README'' = ''readme''"
  "toLowerCase ''Makefile'' = ''makefile''"
  by (simp_all add: toLowerCase_def toLowerCase_char_def)

lemma fileExtension_examples:
  "fileExtension (File ''photo.jpg'' k) = ''.jpg''"
  "fileExtension (File ''photo.png'' k) = ''.png''"
  "fileExtension (File ''README'' k) = ''.readme''"
  "fileExtension (File ''Makefile'' k) = ''.makefile''"
  by (simp_all add: fileExtension_def pop_def toLowerCase_examples)

lemma isFileValid_examples:
  "\<not> isFileValid \<lparr>lineCount = n, filetypes = Some [''.png'']\<rparr> (File ''photo.jpg'' k)"
  "isFileValid \<lparr>lineCount = n, filetypes = Some [''.png'']\<rparr> (File ''photo.png'' k)"
  by (simp_all add: isFileValid_def fileExtension_examples)

text \<open>
  Claim C1. The specification says that \<open>isFileValid\<close> is false if and only if the
  allow-list is non-empty, an extension is extractable from the name (the name contains
  a dot) and that extension is not in the list. With the allow-list \<open>['.png']\<close> and the
  file name \<open>README\<close> the code returns false, although no extension is extractable and
  the check in the words of the specification accepts the file.
\<close>

theorem isFileValid_differs_from_spec:
  "\<not> isFileValid \<lparr>lineCount = 1, filetypes = Some [''.png'']\<rparr> (File ''README'' 0) \<and>
   spec_extension (name (File ''README'' 0)) = None \<and>
   spec_isFileValid (Some [''.png'']) (File ''README'' 0)"
  by (simp add: isFileValid_def fileExtension_examples spec_isFileValid_def spec_extension_def)

text \<open>
  Claim C2. The specification says that a file whose name contains no dot is valid
  whatever the allow-list is. The name \<open>Makefile\<close> contains no dot, and with the
  allow-list \<open>['.jpg', '.png']\<close> the code rejects it: the extension it computes is
  \<open>.makefile\<close>.
\<close>

theorem isFileValid_rejects_name_without_dot:
  "CHR ''.'' \<notin> set (name (File ''Makefile'' 0)) \<and>
   fileExtension (File ''Makefile'' 0) = ''.makefile'' \<and>
   \<not> isFileValid \<lparr>lineCount = 1, filetypes = Some [''.jpg'', ''.png'']\<rparr> (File ''Makefile'' 0)"
  by (simp add: isFileValid_def fileExtension_examples)

text \<open>
  Claim C9. When the allow-list is absent or empty, \<open>isFileValid\<close> returns true for
  every file, whatever its name.
\<close>

theorem isFileValid_accepts_all_without_filetypes:
  "isFileValid (cfg\<lparr>filetypes := None\<rparr>) f \<and> isFileValid (cfg\<lparr>filetypes := Some []\<rparr>) f"
  by (simp add: isFileValid_def)

section \<open>Construction and teardown\<close>

text \<open>
  The listeners left after the teardown, for any state of the view the controller is
  built over: the four listeners on the input and on the root element are gone, the
  click listener on the delete button stays, and so does the subscription to the change
  notification of the value.
\<close>

lemma run_disposer_fields [simp]:
  "set (listeners (run_disposer d s)) =
     set (listeners s) - {(ViewInput, ''change'', OnFile), (ViewElement, ''drop'', OnDrop),
       (ViewElement, ''dragover'', OnDragOver), (ViewElement, ''dragleave'', OnDragLeave)}"
  "disposeHandlers (run_disposer d s) = disposeHandlers s"
  "changeSubscribers (run_disposer d s) = changeSubscribers s"
  by (cases d; auto simp add: removeEventListener_def)+

lemma fold_run_disposer_listeners:
  "set (listeners (fold run_disposer ds s)) =
     (if ds = [] then set (listeners s)
      else set (listeners s) - {(ViewInput, ''change'', OnFile), (ViewElement, ''drop'', OnDrop),
        (ViewElement, ''dragover'', OnDragOver), (ViewElement, ''dragleave'', OnDragLeave)})"
  by (induction ds arbitrary: s) auto

lemma fold_run_disposer_subscribers:
  "changeSubscribers (fold run_disposer ds s) = changeSubscribers s"
  by (induction ds arbitrary: s) auto

lemma addEventListener_fields [simp]:
  "set (listeners (addEventListener t ty h s)) = insert (t, ty, h) (set (listeners s))"
  "disposeHandlers (addEventListener t ty h s) = disposeHandlers s"
  "changeSubscribers (addEventListener t ty h s) = changeSubscribers s"
  by (auto simp add: addEventListener_def)

lemma constructor_listeners:
  "set (listeners (FilePluginController cfg view0)) =
     set (listeners view0) \<union>
       {(ViewInput, ''change'', OnFile), (ViewElement, ''drop'', OnDrop),
        (ViewElement, ''dragover'', OnDragOver), (ViewElement, ''dragleave'', OnDragLeave),
        (ViewDeleteButton, ''click'', OnDeleteClick)}"
  by (auto simp add: FilePluginController_def emitter_on_change_def handleDispose_def)

lemma constructor_disposeHandlers:
  "disposeHandlers (FilePluginController cfg view0) = disposeHandlers view0 @ [RemoveListeners]"
  by (simp add: FilePluginController_def emitter_on_change_def handleDispose_def)

lemma constructor_subscribers:
  "changeSubscribers (FilePluginController cfg view0) = changeSubscribers view0 @ [HandleValueChange]"
  by (simp add: FilePluginController_def emitter_on_change_def handleDispose_def)

lemma teardown_listeners:
  "set (listeners (dispose (FilePluginController cfg view0))) =
     insert (ViewDeleteButton, ''click'', OnDeleteClick)
       (set (listeners view0) -
          {(ViewInput, ''change'', OnFile), (ViewElement, ''drop'', OnDrop),
           (ViewElement, ''dragover'', OnDragOver), (ViewElement, ''dragleave'', OnDragLeave)})"
proof -
  let ?c = "FilePluginController cfg view0"
  have "disposeHandlers ?c \<noteq> []"
    by (simp add: constructor_disposeHandlers)
  then have "set (listeners (dispose ?c)) =
      set (listeners ?c) - {(ViewInput, ''change'', OnFile), (ViewElement, ''drop'', OnDrop),
        (ViewElement, ''dragover'', OnDragOver), (ViewElement, ''dragleave'', OnDragLeave)}"
    unfolding dispose_def by (simp only: fold_run_disposer_listeners if_False)
  then show ?thesis
    by (auto simp add: constructor_listeners)
qed

lemma teardown_subscribers:
  "changeSubscribers (dispose (FilePluginController cfg view0)) =
     changeSubscribers view0 @ [HandleValueChange]"
  by (simp add: dispose_def fold_run_disposer_subscribers constructor_subscribers)

text \<open>
  Claim C3. The specification says that the teardown callback removes every DOM listener
  the constructor added, the click listener on the delete button included. The
  constructor adds five listeners; the callback it registers removes four of them. After
  the teardown of a control built over a fresh view, the click listener on the delete
  button is still registered.
\<close>

theorem teardown_leaves_click_listener:
  "listeners (FilePluginController cfg (fresh_view v)) =
     [(ViewInput, ''change'', OnFile), (ViewElement, ''drop'', OnDrop),
      (ViewElement, ''dragover'', OnDragOver), (ViewElement, ''dragleave'', OnDragLeave),
      (ViewDeleteButton, ''click'', OnDeleteClick)] \<and>
   listeners (dispose (FilePluginController cfg (fresh_view v))) =
     [(ViewDeleteButton, ''click'', OnDeleteClick)]"
  by (simp add: dispose_def FilePluginController_def emitter_on_change_def handleDispose_def
      addEventListener_def removeEventListener_def fresh_view_def)


section \<open>handleValueChange\<close>

text \<open>
  What \<open>handleValueChange\<close> does in each of its branches. With a file it always
  returns. Without a file it returns when the text element is a child of the container,
  and is otherwise left by the \<open>NotFoundError\<close> of \<open>removeChild\<close>, after the text
  content is cleared and the file icon is attached, and before the warning, the delete
  button and the border are touched.
\<close>

lemma handleValueChange_file:
  "rawValue s = Some f \<Longrightarrow>
   handleValueChange s =
     Returned (s\<lparr>textContent := name f,
                 containerChildren :=
                   removeAll FileIconEl (removeAll TextEl (containerChildren s) @ [TextEl]),
                 warningInnerHTML := [], warningDisplay := ''none'',
                 deleteButtonDisplay := ''block'', containerBorder := ''unset''\<rparr>)"
  by (simp add: handleValueChange_def appendChild_def contains_def removeChild_def Let_def)

lemma handleValueChange_null_attached:
  "rawValue s = None \<Longrightarrow> TextEl \<in> set (containerChildren s) \<Longrightarrow>
   handleValueChange s =
     Returned (s\<lparr>textContent := [],
                 containerChildren :=
                   removeAll TextEl (removeAll FileIconEl (containerChildren s) @ [FileIconEl]),
                 warningInnerHTML := [], warningDisplay := ''none'',
                 deleteButtonDisplay := ''none'', containerBorder := ''1px dashed #717070''\<rparr>)"
  by (simp add: handleValueChange_def appendChild_def removeChild_def Let_def)

lemma handleValueChange_null_detached:
  "rawValue s = None \<Longrightarrow> TextEl \<notin> set (containerChildren s) \<Longrightarrow>
   handleValueChange s =
     Threw NotFoundError
       (s\<lparr>textContent := [],
          containerChildren := removeAll FileIconEl (containerChildren s) @ [FileIconEl]\<rparr>)"
  by (simp add: handleValueChange_def appendChild_def removeChild_def Let_def)

lemma handleValueChange_file_returns:
  "rawValue s = Some f \<Longrightarrow> \<exists>s'. handleValueChange s = Returned s' \<and> rawValue s' = Some f"
  by (simp add: handleValueChange_file)

text \<open>
  The view after a notification: with a file, in every state; without a file, in the
  states in which the text element is attached.
\<close>

lemma handleValueChange_view_matches_file:
  "rawValue s = Some f \<Longrightarrow>
   (\<exists>s'. handleValueChange s = Returned s' \<and>
      textContent s' = name f \<and>
      TextEl \<in> set (containerChildren s') \<and>
      FileIconEl \<notin> set (containerChildren s') \<and>
      warningInnerHTML s' = [] \<and> warningDisplay s' = ''none'' \<and>
      deleteButtonDisplay s' = ''block'' \<and>
      containerBorder s' = ''unset'' \<and>
      rawValue s' = Some f)"
  by (simp add: handleValueChange_file)

lemma handleValueChange_view_matches_null:
  "rawValue s = None \<Longrightarrow> TextEl \<in> set (containerChildren s) \<Longrightarrow>
   (\<exists>s'. handleValueChange s = Returned s' \<and>
      textContent s' = [] \<and>
      FileIconEl \<in> set (containerChildren s') \<and>
      TextEl \<notin> set (containerChildren s') \<and>
      warningInnerHTML s' = [] \<and> warningDisplay s' = ''none'' \<and>
      deleteButtonDisplay s' = ''none'' \<and>
      containerBorder s' = ''1px dashed #717070'' \<and>
      rawValue s' = None)"
  by (simp add: handleValueChange_null_attached)

text \<open>
  Claim C4. The specification says that after every value change the handler makes the
  view match the value; for the value null this includes that the warning is cleared
  and hidden. In a fresh control without a file whose warning is showing, a change
  notification with the value null leaves the handler by an exception at the removal of
  the text element, and the warning is still shown with its text. The same happens when
  the value changes from a file to null in a control that was built over a value
  already holding the file.
\<close>

theorem handleValueChange_null_leaves_view_unsynchronised:
  "handleValueChange (showWarning (fresh_view None)) =
     Threw NotFoundError
       ((showWarning (fresh_view None))\<lparr>containerChildren := [InputEl, FileIconEl]\<rparr>) \<and>
   rawValue (state_of (handleValueChange (showWarning (fresh_view None)))) = None \<and>
   warningInnerHTML (state_of (handleValueChange (showWarning (fresh_view None)))) =
     ''Unaccepted file type.'' \<and>
   warningDisplay (state_of (handleValueChange (showWarning (fresh_view None)))) = ''block'' \<and>
   rawValue prebound_control = Some photo_png \<and>
   exception_of (setRawValue None prebound_control) = Some NotFoundError \<and>
   rawValue (state_of (setRawValue None prebound_control)) = None \<and>
   warningInnerHTML (state_of (setRawValue None prebound_control)) = ''Unaccepted file type.'' \<and>
   warningDisplay (state_of (setRawValue None prebound_control)) = ''block''"
  by (simp add: prebound_control_def png_only_def photo_jpg_def photo_png_def fresh_view_def
      FilePluginController_def emitter_on_change_def handleDispose_def addEventListener_def
      isFileValid_examples onFile_def setRawValue_def handleValueChange_def appendChild_def removeChild_def
      contains_def showWarning_def setTimeout_def)

text \<open>
  Claim C10. \<open>handleValueChange\<close> is total only under a containment precondition. With
  a file it never raises. With the value null it raises \<open>NotFoundError\<close> exactly when
  the text element is not a child of the container, and returns exactly when it is. A
  second notification with the value null, right after a first one, always raises.
\<close>

theorem handleValueChange_throws_iff_text_detached:
  "(rawValue s \<noteq> None \<longrightarrow> exception_of (handleValueChange s) = None) \<and>
   (rawValue s = None \<longrightarrow>
      (exception_of (handleValueChange s) = Some NotFoundError) =
        (TextEl \<notin> set (containerChildren s))) \<and>
   (rawValue s = None \<longrightarrow>
      (exception_of (handleValueChange s) = None) = (TextEl \<in> set (containerChildren s))) \<and>
   (rawValue s = None \<longrightarrow>
      exception_of (handleValueChange (state_of (handleValueChange s))) = Some NotFoundError)"
proof -
  have nonnull: "exception_of (handleValueChange s) = None" if "rawValue s \<noteq> None"
    using that by (auto simp add: handleValueChange_file)
  have att: "exception_of (handleValueChange s) = None"
    if "rawValue s = None" "TextEl \<in> set (containerChildren s)"
    using that by (simp add: handleValueChange_null_attached)
  have det: "exception_of (handleValueChange s) = Some NotFoundError"
    if "rawValue s = None" "TextEl \<notin> set (containerChildren s)"
    using that by (simp add: handleValueChange_null_detached)
  have again: "exception_of (handleValueChange (state_of (handleValueChange s))) =
      Some NotFoundError" if n: "rawValue s = None"
  proof (cases "TextEl \<in> set (containerChildren s)")
    case True
    let ?s' = "state_of (handleValueChange s)"
    have "rawValue ?s' = None" "TextEl \<notin> set (containerChildren ?s')"
      using n True by (simp_all add: handleValueChange_null_attached)
    then show ?thesis by (simp add: handleValueChange_null_detached)
  next
    case False
    let ?s' = "state_of (handleValueChange s)"
    have "rawValue ?s' = None" "TextEl \<notin> set (containerChildren ?s')"
      using n False by (simp_all add: handleValueChange_null_detached)
    then show ?thesis by (simp add: handleValueChange_null_detached)
  qed
  show ?thesis
  proof (cases "TextEl \<in> set (containerChildren s)")
    case True
    with nonnull att again show ?thesis by simp
  next
    case False
    with nonnull det again show ?thesis by simp
  qed
qed

theorem handleValueChange_throws_iff_text_detached_witness:
  "exception_of (handleValueChange (fresh_view (Some (File ''photo.png'' 0)))) = None \<and>
   exception_of (handleValueChange (fresh_view None)) = Some NotFoundError \<and>
   exception_of (handleValueChange
     (state_of (handleValueChange ((fresh_view None)\<lparr>containerChildren := [InputEl, TextEl]\<rparr>))))
     = Some NotFoundError"
  using handleValueChange_throws_iff_text_detached [of "fresh_view (Some (File ''photo.png'' 0))"]
    handleValueChange_throws_iff_text_detached [of "fresh_view None"]
    handleValueChange_throws_iff_text_detached
      [of "(fresh_view None)\<lparr>containerChildren := [InputEl, TextEl]\<rparr>"]
  by (simp add: fresh_view_def)


section \<open>Setting the value\<close>

text \<open>
  Setting the value to a file never raises, whatever the subscribers of the handler are,
  and the file is the bound value afterwards.
\<close>

lemma emit_change_file:
  "rawValue s = Some f \<Longrightarrow> \<exists>s'. emit_change hs s = Returned s' \<and> rawValue s' = Some f"
proof (induction hs arbitrary: s)
  case Nil
  then show ?case by simp
next
  case (Cons h hs)
  from handleValueChange_file_returns [OF Cons.prems] obtain s1
    where s1: "handleValueChange s = Returned s1" "rawValue s1 = Some f" by blast
  from Cons.IH [OF s1(2)] s1(1) show ?case by (cases h) simp
qed

lemma setRawValue_file:
  "\<exists>s'. setRawValue (Some f) s = Returned s' \<and> rawValue s' = Some f"
proof (cases "rawValue s = Some f")
  case True
  then show ?thesis by (simp add: setRawValue_def)
next
  case False
  have "rawValue (s\<lparr>rawValue := Some f\<rparr>) = Some f" by simp
  from emit_change_file [OF this, of "changeSubscribers s"] False
  show ?thesis by (simp add: setRawValue_def)
qed

lemma showWarning_fields:
  "warningInnerHTML (showWarning s) = ''Unaccepted file type.''"
  "warningDisplay (showWarning s) = ''block''"
  "rawValue (showWarning s) = rawValue s"
  "timers (showWarning s) = timers s @ [(clock s + 5000, DismissWarning)]"
  "clock (showWarning s) = clock s"
  by (simp_all add: showWarning_def setTimeout_def)

section \<open>onFile and onDrop\<close>

lemma onFile_invalid:
  "inputFiles s = Some (f # fs) \<Longrightarrow> \<not> isFileValid (config s) f \<Longrightarrow>
   onFile s = Returned (showWarning s)"
  by (simp add: onFile_def)

lemma onFile_valid:
  "inputFiles s = Some (f # fs) \<Longrightarrow> isFileValid (config s) f \<Longrightarrow>
   onFile s = setRawValue (Some f) s"
  by (simp add: onFile_def)

lemma onDrop_single_invalid:
  "isDragEvent ev \<Longrightarrow> dataTransfer ev = Some (Some [f]) \<Longrightarrow> \<not> isFileValid (config s) f \<Longrightarrow>
   onDrop ev s =
     Returned (changeDraggingState False (showWarning (s\<lparr>defaultPrevented := True\<rparr>)))"
  by (simp add: onDrop_def item_def)

lemma onDrop_single_valid:
  "isDragEvent ev \<Longrightarrow> dataTransfer ev = Some (Some [f]) \<Longrightarrow> isFileValid (config s) f \<Longrightarrow>
   onDrop ev s =
     and_then (setRawValue (Some f) (s\<lparr>defaultPrevented := True\<rparr>))
       (\<lambda>s2. Returned (changeDraggingState False s2))"
  by (simp add: onDrop_def item_def)

text \<open>
  Claim C5. For a file selection (the first file of the input) and for a drop of exactly
  one file: when \<open>isFileValid\<close> is false the handler returns without an exception, the
  warning is shown, and nothing else has happened (the state is the old one with the
  warning shown and its dismissal scheduled, and for a drop with the default prevented
  and the dragging state reset), so the bound value is unchanged and no value was set;
  when \<open>isFileValid\<close> is true the handler returns and the file is the bound value.
\<close>

theorem invalid_file_warns_valid_file_commits:
  "(inputFiles s = Some (f # fs) \<and> \<not> isFileValid (config s) f \<longrightarrow>
      onFile s = Returned (showWarning s) \<and>
      rawValue (state_of (onFile s)) = rawValue s \<and>
      warningInnerHTML (state_of (onFile s)) = ''Unaccepted file type.'' \<and>
      warningDisplay (state_of (onFile s)) = ''block'') \<and>
   (inputFiles s = Some (f # fs) \<and> isFileValid (config s) f \<longrightarrow>
      exception_of (onFile s) = None \<and> rawValue (state_of (onFile s)) = Some f) \<and>
   (isDragEvent ev \<and> dataTransfer ev = Some (Some [f]) \<and> \<not> isFileValid (config s) f \<longrightarrow>
      onDrop ev s =
        Returned (changeDraggingState False (showWarning (s\<lparr>defaultPrevented := True\<rparr>))) \<and>
      rawValue (state_of (onDrop ev s)) = rawValue s \<and>
      warningInnerHTML (state_of (onDrop ev s)) = ''Unaccepted file type.'' \<and>
      warningDisplay (state_of (onDrop ev s)) = ''block'') \<and>
   (isDragEvent ev \<and> dataTransfer ev = Some (Some [f]) \<and> isFileValid (config s) f \<longrightarrow>
      exception_of (onDrop ev s) = None \<and> rawValue (state_of (onDrop ev s)) = Some f)"
proof -
  have a: "onFile s = Returned (showWarning s) \<and>
      rawValue (state_of (onFile s)) = rawValue s \<and>
      warningInnerHTML (state_of (onFile s)) = ''Unaccepted file type.'' \<and>
      warningDisplay (state_of (onFile s)) = ''block''"
    if "inputFiles s = Some (f # fs)" "\<not> isFileValid (config s) f"
    using that by (simp add: onFile_invalid showWarning_fields)
  have b: "exception_of (onFile s) = None \<and> rawValue (state_of (onFile s)) = Some f"
    if "inputFiles s = Some (f # fs)" "isFileValid (config s) f"
  proof -
    obtain s' where "setRawValue (Some f) s = Returned s'" "rawValue s' = Some f"
      using setRawValue_file by blast
    with that show ?thesis by (simp add: onFile_valid)
  qed
  have c: "onDrop ev s =
        Returned (changeDraggingState False (showWarning (s\<lparr>defaultPrevented := True\<rparr>))) \<and>
      rawValue (state_of (onDrop ev s)) = rawValue s \<and>
      warningInnerHTML (state_of (onDrop ev s)) = ''Unaccepted file type.'' \<and>
      warningDisplay (state_of (onDrop ev s)) = ''block''"
    if "isDragEvent ev" "dataTransfer ev = Some (Some [f])" "\<not> isFileValid (config s) f"
    using that by (simp add: onDrop_single_invalid showWarning_fields changeDraggingState_def)
  have d: "exception_of (onDrop ev s) = None \<and> rawValue (state_of (onDrop ev s)) = Some f"
    if "isDragEvent ev" "dataTransfer ev = Some (Some [f])" "isFileValid (config s) f"
  proof -
    obtain s' where "setRawValue (Some f) (s\<lparr>defaultPrevented := True\<rparr>) = Returned s'"
      "rawValue s' = Some f"
      using setRawValue_file by blast
    with that show ?thesis by (simp add: onDrop_single_valid changeDraggingState_def)
  qed
  from a b c d show ?thesis by blast
qed


lemmas scenario_defs =
  png_control_def png_only_def photo_jpg_def photo_png_def fresh_view_def
  FilePluginController_def emitter_on_change_def handleDispose_def addEventListener_def

lemmas isFileValid_eval = isFileValid_examples

lemmas handler_defs =
  onFile_def onDrop_def item_def onDeleteClick_def setRawValue_def handleValueChange_def
  appendChild_def removeChild_def contains_def showWarning_def setTimeout_def
  changeDraggingState_def

theorem invalid_file_warns_valid_file_commits_witness:
  "rawValue (state_of (onFile (png_control\<lparr>inputFiles := Some [photo_jpg]\<rparr>))) = None \<and>
   warningDisplay (state_of (onFile (png_control\<lparr>inputFiles := Some [photo_jpg]\<rparr>))) = ''block'' \<and>
   rawValue (state_of (onFile (png_control\<lparr>inputFiles := Some [photo_png]\<rparr>))) = Some photo_png \<and>
   rawValue (state_of (onDrop \<lparr>isDragEvent = True, dataTransfer = Some (Some [photo_jpg])\<rparr>
     png_control)) = None \<and>
   warningDisplay (state_of (onDrop \<lparr>isDragEvent = True, dataTransfer = Some (Some [photo_jpg])\<rparr>
     png_control)) = ''block'' \<and>
   rawValue (state_of (onDrop \<lparr>isDragEvent = True, dataTransfer = Some (Some [photo_png])\<rparr>
     png_control)) = Some photo_png"
  using
    invalid_file_warns_valid_file_commits
      [of "png_control\<lparr>inputFiles := Some [photo_jpg]\<rparr>" photo_jpg "[]"
          "\<lparr>isDragEvent = True, dataTransfer = Some (Some [photo_jpg])\<rparr>"]
    invalid_file_warns_valid_file_commits
      [of "png_control\<lparr>inputFiles := Some [photo_png]\<rparr>" photo_png "[]"
          "\<lparr>isDragEvent = True, dataTransfer = Some (Some [photo_png])\<rparr>"]
    invalid_file_warns_valid_file_commits
      [of png_control photo_jpg "[]"
          "\<lparr>isDragEvent = True, dataTransfer = Some (Some [photo_jpg])\<rparr>"]
    invalid_file_warns_valid_file_commits
      [of png_control photo_png "[]"
          "\<lparr>isDragEvent = True, dataTransfer = Some (Some [photo_png])\<rparr>"]
  by (simp add: scenario_defs isFileValid_eval handler_defs)

section \<open>onDeleteClick\<close>

text \<open>
  \<open>onDeleteClick\<close> in a constructed controller with a file bound: when the text element
  is attached it returns with the value, the input and the warning reset; when it is not,
  the change notification raises inside \<open>setRawValue\<close> and the two resets that follow
  it in the source are not reached.
\<close>

lemma onDeleteClick_attached:
  assumes "rawValue s = Some f" "changeSubscribers s = [HandleValueChange]"
    "TextEl \<in> set (containerChildren s)"
  shows "\<exists>s'. onDeleteClick s = Returned s' \<and> rawValue s' = None \<and> inputValue s' = [] \<and>
     warningInnerHTML s' = [] \<and> warningDisplay s' = ''none''"
  using assms
  by (simp add: onDeleteClick_def setRawValue_def handleValueChange_null_attached)

lemma onDeleteClick_detached:
  assumes "rawValue s = Some f" "changeSubscribers s = [HandleValueChange]"
    "TextEl \<notin> set (containerChildren s)"
  shows "onDeleteClick s =
     Threw NotFoundError
       (s\<lparr>rawValue := None, textContent := [],
          containerChildren := removeAll FileIconEl (containerChildren s) @ [FileIconEl]\<rparr>)"
  using assms
  by (simp add: onDeleteClick_def setRawValue_def handleValueChange_null_detached)

lemma onDeleteClick_no_file: "rawValue s = None \<Longrightarrow> onDeleteClick s = Returned s"
  by (simp add: onDeleteClick_def)

section \<open>Drops and selections without a single file\<close>

text \<open>
  Claim C7. A drop whose payload holds no file or more than one file returns with the
  state unchanged but for the prevented default and the dragging state, which is
  inactive; the bound value is unchanged. A change event with an empty file list returns
  with the state unchanged.
\<close>

theorem no_single_file_is_no_op:
  "(isDragEvent ev \<and> dataTransfer ev = Some (Some files) \<and> (files = [] \<or> 1 < length files) \<longrightarrow>
      onDrop ev s = Returned (s\<lparr>defaultPrevented := True, dragging := False\<rparr>) \<and>
      rawValue (state_of (onDrop ev s)) = rawValue s \<and>
      dragging (state_of (onDrop ev s)) = False) \<and>
   (inputFiles s = Some [] \<longrightarrow>
      onFile s = Returned s \<and> rawValue (state_of (onFile s)) = rawValue s)"
  by (auto simp add: onDrop_def onFile_def changeDraggingState_def)

theorem no_single_file_is_no_op_witness:
  "rawValue (state_of (onDrop \<lparr>isDragEvent = True, dataTransfer = Some (Some [])\<rparr>
     (onDragOver png_control))) = None \<and>
   dragging (state_of (onDrop \<lparr>isDragEvent = True, dataTransfer = Some (Some [])\<rparr>
     (onDragOver png_control))) = False \<and>
   rawValue (state_of (onDrop
     \<lparr>isDragEvent = True, dataTransfer = Some (Some [photo_png, photo_jpg])\<rparr>
     (onDragOver png_control))) = None \<and>
   dragging (state_of (onDrop
     \<lparr>isDragEvent = True, dataTransfer = Some (Some [photo_png, photo_jpg])\<rparr>
     (onDragOver png_control))) = False \<and>
   onFile png_control = Returned png_control"
  using
    no_single_file_is_no_op
      [of "\<lparr>isDragEvent = True, dataTransfer = Some (Some [])\<rparr>" "[]" "onDragOver png_control"]
    no_single_file_is_no_op
      [of "\<lparr>isDragEvent = True, dataTransfer = Some (Some [photo_png, photo_jpg])\<rparr>"
          "[photo_png, photo_jpg]" png_control]
    no_single_file_is_no_op
      [of "\<lparr>isDragEvent = True, dataTransfer = Some (Some [photo_png, photo_jpg])\<rparr>"
          "[photo_png, photo_jpg]" "onDragOver png_control"]
  by (simp add: scenario_defs onDragOver_def handler_defs)


section \<open>The warning and its timers\<close>

text \<open>
  The fields of a state after some time has passed: the warning is cleared as soon as
  one timer was due, since every timer is a dismissal.
\<close>

lemma run_timer_dismiss:
  "run_timer cb s = s\<lparr>warningInnerHTML := [], warningDisplay := ''none''\<rparr>"
  by (cases cb) simp

lemma fold_run_timer_fields:
  "clock (fold (\<lambda>p. run_timer (snd p)) ps s) = clock s"
  "timers (fold (\<lambda>p. run_timer (snd p)) ps s) = timers s"
  "rawValue (fold (\<lambda>p. run_timer (snd p)) ps s) = rawValue s"
  "warningInnerHTML (fold (\<lambda>p. run_timer (snd p)) ps s) =
     (if ps = [] then warningInnerHTML s else [])"
  "warningDisplay (fold (\<lambda>p. run_timer (snd p)) ps s) =
     (if ps = [] then warningDisplay s else ''none'')"
  by (induction ps arbitrary: s; simp add: run_timer_dismiss)+

lemma elapse_fields:
  "clock (elapse dt s) = clock s + dt"
  "timers (elapse dt s) = filter (\<lambda>p. \<not> fst p \<le> clock s + dt) (timers s)"
  "rawValue (elapse dt s) = rawValue s"
  "warningInnerHTML (elapse dt s) =
     (if filter (\<lambda>p. fst p \<le> clock s + dt) (timers s) = [] then warningInnerHTML s else [])"
  "warningDisplay (elapse dt s) =
     (if filter (\<lambda>p. fst p \<le> clock s + dt) (timers s) = [] then warningDisplay s
      else ''none'')"
  by (simp_all add: elapse_def Let_def fold_run_timer_fields)

text \<open>
  Claim C8. \<open>showWarning\<close> sets the text of the warning to the fixed message, shows it
  and adds one dismissal to the timer queue, due 5000 ms later, keeping the timers that
  are pending. A dismissal clears the text and hides the warning whatever the state is.
  Alone, the warning is cleared after 5000 ms and not before. When a second warning is
  shown \<open>d\<close> ms after a first one, with \<open>0 < d < 5000\<close>, then 5000 ms after the first
  call the second warning is cleared, before its own 5000 ms have passed, and its own
  dismissal is still pending.
\<close>

theorem showWarning_dismissals_overlap:
  "warningInnerHTML (showWarning s) = ''Unaccepted file type.'' \<and>
   warningDisplay (showWarning s) = ''block'' \<and>
   timers (showWarning s) = timers s @ [(clock s + 5000, DismissWarning)] \<and>
   run_timer DismissWarning s = s\<lparr>warningInnerHTML := [], warningDisplay := ''none''\<rparr> \<and>
   warningInnerHTML (elapse 5000 (showWarning s)) = [] \<and>
   warningDisplay (elapse 5000 (showWarning s)) = ''none'' \<and>
   (d < 5000 \<and> timers s = [] \<longrightarrow>
      warningInnerHTML (elapse d (showWarning s)) = ''Unaccepted file type.'' \<and>
      warningDisplay (elapse d (showWarning s)) = ''block'') \<and>
   (0 < d \<and> d < 5000 \<longrightarrow>
      warningInnerHTML (showWarning (elapse d (showWarning s))) = ''Unaccepted file type.'' \<and>
      warningDisplay (showWarning (elapse d (showWarning s))) = ''block'' \<and>
      clock (elapse (5000 - d) (showWarning (elapse d (showWarning s)))) <
        clock (showWarning (elapse d (showWarning s))) + 5000 \<and>
      warningInnerHTML (elapse (5000 - d) (showWarning (elapse d (showWarning s)))) = [] \<and>
      warningDisplay (elapse (5000 - d) (showWarning (elapse d (showWarning s)))) = ''none'' \<and>
      (clock (showWarning (elapse d (showWarning s))) + 5000, DismissWarning)
        \<in> set (timers (elapse (5000 - d) (showWarning (elapse d (showWarning s))))))"
proof -
  have one: "warningInnerHTML (elapse 5000 (showWarning s)) = []"
    "warningDisplay (elapse 5000 (showWarning s)) = ''none''"
    by (simp_all add: elapse_fields showWarning_fields)
  have early: "warningInnerHTML (elapse d (showWarning s)) = ''Unaccepted file type.'' \<and>
      warningDisplay (elapse d (showWarning s)) = ''block''"
    if "d < 5000" "timers s = []"
    using that by (simp add: elapse_fields showWarning_fields)
  have two: "clock (elapse (5000 - d) (showWarning (elapse d (showWarning s)))) <
        clock (showWarning (elapse d (showWarning s))) + 5000 \<and>
      warningInnerHTML (elapse (5000 - d) (showWarning (elapse d (showWarning s)))) = [] \<and>
      warningDisplay (elapse (5000 - d) (showWarning (elapse d (showWarning s)))) = ''none'' \<and>
      (clock (showWarning (elapse d (showWarning s))) + 5000, DismissWarning)
        \<in> set (timers (elapse (5000 - d) (showWarning (elapse d (showWarning s)))))"
    if "0 < d" "d < 5000"
    using that by (simp add: elapse_fields showWarning_fields)
  from one early two show ?thesis
    by (simp add: showWarning_fields)
qed

theorem showWarning_dismissals_overlap_witness:
  "warningDisplay (elapse 4999 (showWarning (fresh_view None))) = ''block'' \<and>
   warningDisplay (elapse 5000 (showWarning (fresh_view None))) = ''none'' \<and>
   warningDisplay (showWarning (elapse 3000 (showWarning (fresh_view None)))) = ''block'' \<and>
   clock (elapse 2000 (showWarning (elapse 3000 (showWarning (fresh_view None))))) = 5000 \<and>
   warningInnerHTML (elapse 2000 (showWarning (elapse 3000 (showWarning (fresh_view None))))) = [] \<and>
   warningDisplay (elapse 2000 (showWarning (elapse 3000 (showWarning (fresh_view None))))) =
     ''none'' \<and>
   timers (elapse 2000 (showWarning (elapse 3000 (showWarning (fresh_view None))))) =
     [(8000, DismissWarning)]"
  using showWarning_dismissals_overlap [of "fresh_view None" 4999]
    showWarning_dismissals_overlap [of "fresh_view None" 3000]
  by (simp add: fresh_view_def elapse_def showWarning_def setTimeout_def)


section \<open>Synchronised states\<close>

text \<open>
  The constructor over a fresh view without a file gives a synchronised state, and the
  handlers keep it and do not raise in it. So the exception of the change handler is
  met only outside of these states: when the control is built over a value that already
  holds a file while the text element is not attached, or when a notification with the
  value null arrives although the value was null before.
\<close>

lemma synchronised_constructor: "synchronised (FilePluginController cfg (fresh_view None))"
  by (simp add: synchronised_def scenario_defs)

lemma synchronised_showWarning: "synchronised s \<Longrightarrow> synchronised (showWarning s)"
  by (simp add: synchronised_def showWarning_def setTimeout_def)

lemma synchronised_setRawValue_file:
  assumes "synchronised s"
  shows "\<exists>s'. setRawValue (Some f) s = Returned s' \<and> rawValue s' = Some f \<and> synchronised s'"
proof (cases "rawValue s = Some f")
  case True
  with assms show ?thesis by (simp add: setRawValue_def)
next
  case False
  with assms show ?thesis
    by (simp add: setRawValue_def synchronised_def handleValueChange_file)
qed

lemma synchronised_onFile:
  assumes "synchronised s"
  shows "exception_of (onFile s) = None \<and> synchronised (state_of (onFile s))"
proof (cases "inputFiles s")
  case None
  with assms show ?thesis by (simp add: onFile_def)
next
  case (Some fs)
  show ?thesis
  proof (cases fs)
    case Nil
    with Some assms show ?thesis by (simp add: onFile_def)
  next
    case (Cons f rest)
    obtain s' where "setRawValue (Some f) s = Returned s'" "synchronised s'"
      using synchronised_setRawValue_file [OF assms] by blast
    with Some Cons assms show ?thesis
      by (simp add: onFile_def synchronised_showWarning)
  qed
qed

lemma synchronised_onDeleteClick:
  assumes "synchronised s"
  shows "exception_of (onDeleteClick s) = None \<and> synchronised (state_of (onDeleteClick s)) \<and>
     rawValue (state_of (onDeleteClick s)) = None"
proof (cases "rawValue s")
  case None
  with assms show ?thesis by (simp add: onDeleteClick_no_file)
next
  case (Some f)
  with assms have "changeSubscribers s = [HandleValueChange]"
    "TextEl \<in> set (containerChildren s)"
    by (simp_all add: synchronised_def)
  with Some show ?thesis
    by (simp add: onDeleteClick_def setRawValue_def handleValueChange_null_attached
        synchronised_def)
qed

lemma synchronised_onDrop:
  assumes "synchronised s"
  shows "exception_of (onDrop ev s) = None \<and> synchronised (state_of (onDrop ev s))"
proof -
  let ?s1 = "s\<lparr>defaultPrevented := True\<rparr>"
  have s1: "synchronised ?s1"
    using assms by (simp add: synchronised_def)
  have drag: "synchronised (changeDraggingState False t)" if "synchronised t" for t
    using that by (simp add: synchronised_def changeDraggingState_def)
  have single: "exception_of (and_then
        (if \<not> isFileValid (config ?s1) f then Returned (showWarning ?s1)
         else setRawValue (Some f) ?s1)
        (\<lambda>s2. Returned (changeDraggingState False s2))) = None \<and>
      synchronised (state_of (and_then
        (if \<not> isFileValid (config ?s1) f then Returned (showWarning ?s1)
         else setRawValue (Some f) ?s1)
        (\<lambda>s2. Returned (changeDraggingState False s2))))" for f
  proof -
    obtain s' where "setRawValue (Some f) ?s1 = Returned s'" "synchronised s'"
      using synchronised_setRawValue_file [OF s1] by blast
    with s1 show ?thesis
      by (simp add: drag synchronised_showWarning)
  qed
  show ?thesis
  proof (cases "isDragEvent ev")
    case False
    with assms show ?thesis by (simp add: onDrop_def drag)
  next
    case True
    show ?thesis
    proof (cases "\<exists>f. dataTransfer ev = Some (Some [f])")
      case True
      then obtain f where "dataTransfer ev = Some (Some [f])" by blast
      with \<open>isDragEvent ev\<close> single [of f] show ?thesis
        by (simp add: onDrop_def item_def Let_def)
    next
      case False
      then have "onDrop ev s = Returned (changeDraggingState False ?s1)"
        using \<open>isDragEvent ev\<close>
        by (auto simp add: onDrop_def item_def Let_def length_Suc_conv split: option.splits)
      with s1 show ?thesis by (simp add: drag)
    qed
  qed
qed

section \<open>Deleting the file\<close>

text \<open>
  The delete button is displayed only by the branch of the change handler that also
  attaches the text element, and hidden by the other. So in every state that a control
  reaches from its construction the button is displayed only while the text element is
  attached, also when the control is built over a value that already holds a file, and
  also after a change handler was left by its exception.
\<close>

lemma button_with_text_constructor:
  "button_with_text (FilePluginController cfg (fresh_view v))"
  by (simp add: button_with_text_def scenario_defs)

lemma button_with_text_handleValueChange:
  assumes "button_with_text s"
  shows "button_with_text (state_of (handleValueChange s))"
proof (cases "rawValue s")
  case (Some f)
  with assms show ?thesis
    by (simp add: handleValueChange_file button_with_text_def)
next
  case None
  show ?thesis
  proof (cases "TextEl \<in> set (containerChildren s)")
    case True
    with None assms show ?thesis
      by (simp add: handleValueChange_null_attached button_with_text_def)
  next
    case False
    with None assms show ?thesis
      by (simp add: handleValueChange_null_detached button_with_text_def)
  qed
qed

lemma emit_change_single: "emit_change [HandleValueChange] s = handleValueChange s"
  by (cases "handleValueChange s") simp_all

lemma button_with_text_setRawValue:
  assumes "button_with_text s"
  shows "button_with_text (state_of (setRawValue v s))"
proof (cases "rawValue s = v")
  case True
  with assms show ?thesis by (simp add: setRawValue_def)
next
  case False
  from assms have "button_with_text (s\<lparr>rawValue := v\<rparr>)"
    by (simp add: button_with_text_def)
  from button_with_text_handleValueChange [OF this]
  have after: "button_with_text (state_of (handleValueChange (s\<lparr>rawValue := v\<rparr>)))" .
  from assms have "changeSubscribers s = [HandleValueChange]"
    by (simp add: button_with_text_def)
  with False have "setRawValue v s = handleValueChange (s\<lparr>rawValue := v\<rparr>)"
    by (simp add: setRawValue_def emit_change_single del: emit_change.simps)
  with after show ?thesis by simp
qed

lemma button_with_text_showWarning: "button_with_text s \<Longrightarrow> button_with_text (showWarning s)"
  by (simp add: button_with_text_def showWarning_def setTimeout_def)

lemma button_with_text_onFile:
  assumes "button_with_text s"
  shows "button_with_text (state_of (onFile s))"
  using assms button_with_text_setRawValue [OF assms] button_with_text_showWarning [OF assms]
  by (simp add: onFile_def split: option.splits list.splits)

lemma state_of_and_then_dragging:
  "state_of (and_then out (\<lambda>s2. Returned (changeDraggingState False s2))) =
     (case out of Returned t \<Rightarrow> changeDraggingState False t | Threw e t \<Rightarrow> t)"
  by (cases out) simp_all

lemma button_with_text_changeDraggingState:
  "button_with_text s \<Longrightarrow> button_with_text (changeDraggingState a s)"
  by (simp add: button_with_text_def changeDraggingState_def)

lemma button_with_text_onDrop:
  assumes "button_with_text s"
  shows "button_with_text (state_of (onDrop ev s))"
proof -
  let ?s1 = "s\<lparr>defaultPrevented := True\<rparr>"
  have s1: "button_with_text ?s1"
    using assms by (simp add: button_with_text_def)
  have wrap: "button_with_text
      (state_of (and_then out (\<lambda>s2. Returned (changeDraggingState False s2))))"
    if "button_with_text (state_of out)" for out
    using that by (cases out) (simp_all add: button_with_text_changeDraggingState)
  have "button_with_text (state_of
      (if isDragEvent ev then
          (let s1 = s\<lparr>defaultPrevented := True\<rparr>
           in case dataTransfer ev of
                Some (Some filesArray) \<Rightarrow>
                  (if length filesArray = 1 then
                     (case item filesArray 0 of
                        Some file \<Rightarrow>
                          (if \<not> isFileValid (config s1) file then Returned (showWarning s1)
                           else setRawValue (Some file) s1)
                      | None \<Rightarrow> Returned s1)
                   else Returned s1)
              | _ \<Rightarrow> Returned s1)
        else Returned s))"
    using assms s1 button_with_text_setRawValue [OF s1] button_with_text_showWarning [OF s1]
    by (simp add: Let_def split: option.splits)
  from wrap [OF this] show ?thesis by (simp add: onDrop_def)
qed

lemma button_with_text_onDeleteClick:
  assumes "button_with_text s"
  shows "button_with_text (state_of (onDeleteClick s))"
proof (cases "rawValue s")
  case None
  with assms show ?thesis by (simp add: onDeleteClick_def)
next
  case (Some f)
  from button_with_text_setRawValue [OF assms, of None] Some show ?thesis
    by (cases "setRawValue None s") (simp_all add: onDeleteClick_def button_with_text_def)
qed

lemma fold_run_timer_frame:
  "changeSubscribers (fold (\<lambda>p. run_timer (snd p)) ps s) = changeSubscribers s"
  "deleteButtonDisplay (fold (\<lambda>p. run_timer (snd p)) ps s) = deleteButtonDisplay s"
  "containerChildren (fold (\<lambda>p. run_timer (snd p)) ps s) = containerChildren s"
  by (induction ps arbitrary: s; simp add: run_timer_dismiss)+

lemma button_with_text_elapse: "button_with_text s \<Longrightarrow> button_with_text (elapse dt s)"
  by (simp add: button_with_text_def elapse_def Let_def fold_run_timer_frame)

lemma run_disposer_frame:
  "changeSubscribers (run_disposer d s) = changeSubscribers s"
  "deleteButtonDisplay (run_disposer d s) = deleteButtonDisplay s"
  "containerChildren (run_disposer d s) = containerChildren s"
  by (cases d; simp add: removeEventListener_def)+

lemma button_with_text_dispose: "button_with_text s \<Longrightarrow> button_with_text (dispose s)"
proof -
  have "button_with_text s \<Longrightarrow> button_with_text (fold run_disposer ds s)" for ds
  proof (induction ds arbitrary: s)
    case Nil
    then show ?case by simp
  next
    case (Cons d ds)
    from Cons.prems have "button_with_text (run_disposer d s)"
      by (simp add: button_with_text_def run_disposer_frame del: run_disposer.simps)
    from Cons.IH [OF this] show ?case by simp
  qed
  then show "button_with_text s \<Longrightarrow> button_with_text (dispose s)"
    by (simp add: dispose_def)
qed

lemma button_with_text_deliver:
  assumes "button_with_text s" "deliver e s = Some s'"
  shows "button_with_text s'"
proof (cases e)
  case (SelectFiles fs)
  from assms(1) have "button_with_text (s\<lparr>inputFiles := Some fs, inputValue := fakepath fs\<rparr>)"
    by (simp add: button_with_text_def)
  from button_with_text_onFile [OF this] SelectFiles assms(2) show ?thesis by auto
next
  case (Drop ev)
  with assms button_with_text_onDrop [of s ev] show ?thesis by auto
next
  case DragOver
  with assms show ?thesis
    by (auto simp add: onDragOver_def button_with_text_def changeDraggingState_def)
next
  case DragLeave
  with assms show ?thesis
    by (auto simp add: onDragLeave_def button_with_text_def changeDraggingState_def)
next
  case ClickDelete
  with assms button_with_text_onDeleteClick [of s] show ?thesis
    by (auto split: if_splits)
next
  case (Elapse dt)
  with assms button_with_text_elapse [of s dt] show ?thesis by auto
next
  case (SetValue v)
  with assms button_with_text_setRawValue [of s v] show ?thesis by auto
next
  case Notify
  with assms button_with_text_handleValueChange [of s] show ?thesis by auto
next
  case Dispose
  with assms button_with_text_dispose [of s] show ?thesis by auto
qed

lemma button_with_text_run:
  "button_with_text s \<Longrightarrow> run es s = Some s' \<Longrightarrow> button_with_text s'"
proof (induction es arbitrary: s)
  case Nil
  then show ?case by simp
next
  case (Cons e es)
  from Cons.prems(2) obtain s1 where s1: "deliver e s = Some s1" "run es s1 = Some s'"
    by (auto split: option.splits)
  from button_with_text_deliver [OF Cons.prems(1) s1(1)] have "button_with_text s1" .
  from Cons.IH [OF this s1(2)] show ?case .
qed

text \<open>
  Claim C6. If a file is bound when \<open>onDeleteClick\<close> runs, then afterwards the bound
  value is null, the raw value of the input is the empty string, and the text of the
  warning is empty and the warning is hidden. \<open>onDeleteClick\<close> runs as the click
  listener of the delete button, so the states it runs in are those a control reaches
  from its construction, over any configuration and any initial value, by any sequence
  of events, and in which the delete button is displayed. In all of them it returns
  without an exception with the three resets done.
\<close>

theorem onDeleteClick_resets_value_input_and_warning:
  assumes "run es (FilePluginController cfg (fresh_view v)) = Some s"
    and "delete_button_shown s"
    and "rawValue s = Some f"
  shows "exception_of (onDeleteClick s) = None \<and>
     rawValue (state_of (onDeleteClick s)) = None \<and>
     inputValue (state_of (onDeleteClick s)) = [] \<and>
     warningInnerHTML (state_of (onDeleteClick s)) = [] \<and>
     warningDisplay (state_of (onDeleteClick s)) = ''none''"
proof -
  from button_with_text_run [OF button_with_text_constructor assms(1)]
  have inv: "button_with_text s" .
  with assms(2) have "changeSubscribers s = [HandleValueChange]"
    "TextEl \<in> set (containerChildren s)"
    by (simp_all add: button_with_text_def delete_button_shown_def)
  from onDeleteClick_attached [OF assms(3) this] show ?thesis by auto
qed

theorem onDeleteClick_resets_value_input_and_warning_witness:
  "run [SelectFiles [photo_jpg], SelectFiles [photo_png]] png_control \<noteq> None \<and>
   rawValue (the (run [SelectFiles [photo_jpg], SelectFiles [photo_png]] png_control)) =
     Some photo_png \<and>
   inputValue (the (run [SelectFiles [photo_jpg], SelectFiles [photo_png]] png_control)) \<noteq> [] \<and>
   delete_button_shown (the (run [SelectFiles [photo_jpg], SelectFiles [photo_png]] png_control)) \<and>
   run [SelectFiles [photo_jpg], SelectFiles [photo_png], ClickDelete] png_control =
     Some (state_of (onDeleteClick
       (the (run [SelectFiles [photo_jpg], SelectFiles [photo_png]] png_control)))) \<and>
   exception_of (onDeleteClick
     (the (run [SelectFiles [photo_jpg], SelectFiles [photo_png]] png_control))) = None \<and>
   rawValue (state_of (onDeleteClick
     (the (run [SelectFiles [photo_jpg], SelectFiles [photo_png]] png_control)))) = None \<and>
   inputValue (state_of (onDeleteClick
     (the (run [SelectFiles [photo_jpg], SelectFiles [photo_png]] png_control)))) = [] \<and>
   warningInnerHTML (state_of (onDeleteClick
     (the (run [SelectFiles [photo_jpg], SelectFiles [photo_png]] png_control)))) = [] \<and>
   warningDisplay (state_of (onDeleteClick
     (the (run [SelectFiles [photo_jpg], SelectFiles [photo_png]] png_control)))) = ''none''"
  using onDeleteClick_resets_value_input_and_warning
    [of "[SelectFiles [photo_jpg], SelectFiles [photo_png]]" png_only None
        "the (run [SelectFiles [photo_jpg], SelectFiles [photo_png]] png_control)" photo_png]
  by (simp add: delete_button_shown_def fakepath_def scenario_defs isFileValid_eval handler_defs)

end
